theory Spec2Isabelle
  imports Main
begin

section \<open>Protocol values, commands and sessions\<close>

text \<open>
  The reply type \<open>RespData\<close> and its type tags are declared outside \<open>command.go\<close>.
  The tags \<open>SimpleString\<close>, \<open>BulkString\<close>, \<open>Array\<close> and \<open>Error\<close> and the fields
  \<open>Type\<close>, \<open>Str\<close>, \<open>IsNull\<close> and \<open>Array\<close> are the ones \<open>command.go\<close> uses; a composite
  literal that leaves a field out gives it Go's zero value (\<open>""\<close>, \<open>false\<close>, \<open>nil\<close>).
  The field \<open>Array\<close> is called \<open>Arr\<close> here, since the tag has the same name.
\<close>

text \<open>Modelled from the spec: the tag \<open>Integer\<close> of the protocol values (\<open>Integer(n)\<close>
  in the data model); \<open>command.go\<close> never builds a value with it.\<close>

datatype RespType = SimpleString | BulkString | Array | Error | Integer

datatype RespData =
  RespData (Type: RespType) (Str: string) (IsNull: bool) (Arr: "RespData list")

record Command =
  cmd :: string
  args :: "string list"

text \<open>\<open>ClientConn\<close> without its socket \<open>conn\<close>, which no function of the model reads.\<close>

record ClientConn =
  transactionQueue :: "Command list"
  isTransaction :: bool

text \<open>A Go run-time panic: \<open>index out of range [i] with length n\<close>.\<close>

datatype panic = IndexOutOfRange nat nat

definition index :: "'a list \<Rightarrow> nat \<Rightarrow> panic + 'a" where
  "index xs i = (if i < length xs then Inr (xs ! i) else Inl (IndexOutOfRange i (length xs)))"

section \<open>Library functions of Go\<close>

text \<open>
  The ASCII path of \<open>strings.ToLower\<close>: on a string whose bytes are all below
  \<open>utf8.RuneSelf = 128\<close>, each of \<open>A\<close>..\<open>Z\<close> is moved by \<open>'a' - 'A' = 32\<close> and every
  other byte stays. (\<open>ToLower\<close> itself follows the environment below, from which it
  takes the other path.)
\<close>

definition isASCII :: "string \<Rightarrow> bool" where
  "isASCII s = list_all (\<lambda>c. (of_char c :: nat) < 128) s"

definition lowerChar :: "char \<Rightarrow> char" where
  "lowerChar c =
     (if 65 \<le> (of_char c :: nat) \<and> (of_char c :: nat) \<le> 90
      then char_of ((of_char c :: nat) + 32) else c)"

text \<open>
  \<open>strconv.Atoi\<close> (\<open>ParseInt(s, 10, 0)\<close> with a 64-bit \<open>int\<close>): an optional sign, then
  one or more decimal digits and nothing else; a value outside the 64-bit range is an
  error. \<open>None\<close> is the error.
\<close>

definition isDigit :: "char \<Rightarrow> bool" where
  "isDigit c = (48 \<le> (of_char c :: nat) \<and> (of_char c :: nat) \<le> 57)"

definition digitsValue :: "string \<Rightarrow> nat" where
  "digitsValue ds = foldl (\<lambda>n c. 10 * n + ((of_char c :: nat) - 48)) 0 ds"

definition Atoi :: "string \<Rightarrow> int option" where
  "Atoi s =
     (let neg = (s \<noteq> [] \<and> hd s = CHR ''-'');
          ds = (if s \<noteq> [] \<and> (hd s = CHR ''-'' \<or> hd s = CHR ''+'') then tl s else s);
          v = (if neg then - int (digitsValue ds) else int (digitsValue ds))
      in if ds = [] \<or> \<not> list_all isDigit ds then None
         else if v < - (2 ^ 63) \<or> 2 ^ 63 - 1 < v then None
         else Some v)"

text \<open>\<open>strconv.Itoa\<close>: the decimal digits of an integer, with \<open>-\<close> before a negative one.\<close>

fun natDigits :: "nat \<Rightarrow> string" where
  "natDigits n =
     (if n < 10 then [char_of (48 + n)]
      else natDigits (n div 10) @ [char_of (48 + n mod 10)])"

definition Itoa :: "int \<Rightarrow> string" where
  "Itoa i = (if i < 0 then CHR ''-'' # natDigits (nat (- i)) else natDigits (nat i))"

section \<open>Parsing a decoded value into a command\<close>

text \<open>The four errors of \<open>parseCmd\<close>, each with the type tag its message prints.\<close>

datatype parseError =
    ExpectedArray RespType
  | ExpectedAtLeastOneElement
  | ExpectedBulkStringForCommand RespType
  | ExpectedBulkString RespType

text \<open>The loop over \<open>r.Array[1:]\<close>: the first element that is no bulk string ends it.\<close>

fun parseArgs :: "RespData list \<Rightarrow> parseError + string list" where
  "parseArgs [] = Inr []"
| "parseArgs (item # items) =
     (if Type item \<noteq> BulkString then Inl (ExpectedBulkString (Type item))
      else (case parseArgs items of
              Inl e \<Rightarrow> Inl e
            | Inr rest \<Rightarrow> Inr (Str item # rest)))"

definition parseCmd :: "RespData \<Rightarrow> parseError + Command" where
  "parseCmd r =
     (if Type r = SimpleString \<and> Str r = ''PING'' then Inr \<lparr>cmd = ''PING'', args = []\<rparr>
      else if Type r \<noteq> Array then Inl (ExpectedArray (Type r))
      else if length (Arr r) < 1 then Inl ExpectedAtLeastOneElement
      else if Type (Arr r ! 0) \<noteq> BulkString
        then Inl (ExpectedBulkStringForCommand (Type (Arr r ! 0)))
      else (case parseArgs (tl (Arr r)) of
              Inl e \<Rightarrow> Inl e
            | Inr as \<Rightarrow> Inr \<lparr>cmd = Str (Arr r ! 0), args = as\<rparr>))"

section \<open>The keyspace store\<close>

text \<open>
  The global \<open>db\<close> and its methods are declared outside \<open>command.go\<close>, which reads and
  writes the fields \<open>M\<close>, \<open>dir\<close>, \<open>dbfilename\<close> and \<open>port\<close> and calls \<open>Add\<close>, \<open>Addex\<close>,
  \<open>Get\<close>, \<open>GetType\<close>, \<open>Delete\<close>, \<open>Incr\<close> and \<open>SaveRDB\<close>. The result types of the
  methods are the ones the call sites fix.
\<close>

text \<open>Modelled from the spec: the value of a key is a string, a list or a stream of
  entries with an id (milliseconds, sequence) and ordered fields.\<close>

record StreamEntry =
  entryId :: "nat \<times> nat"
  entryFields :: "(string \<times> string) list"

datatype Value = StringValue string | ListValue "string list" | StreamValue "StreamEntry list"

text \<open>Modelled from the spec: a key entry is a value with an optional expiry time, in
  milliseconds; the key itself is the key of the map \<open>M\<close>.\<close>

record KeyEntry =
  val :: Value
  expireAt :: "int option"

record DB =
  M :: "string \<rightharpoonup> KeyEntry"
  dir :: string
  dbfilename :: string
  port :: string

text \<open>Modelled from the spec: an entry whose expiry time has passed counts as absent,
  and an operation on its key removes it first (lazy expiration).\<close>

definition expired :: "int \<Rightarrow> KeyEntry \<Rightarrow> bool" where
  "expired t e = (case expireAt e of None \<Rightarrow> False | Some x \<Rightarrow> x < t)"

definition resolve :: "int \<Rightarrow> string \<Rightarrow> DB \<Rightarrow> DB" where
  "resolve t k db =
     (case M db k of
        None \<Rightarrow> db
      | Some e \<Rightarrow> if expired t e then db\<lparr>M := (M db)(k := None)\<rparr> else db)"

text \<open>Modelled from the spec: \<open>Set(key, value, ttl?)\<close> overwrites the key with a string
  value; without a ttl (\<open>Add\<close>) it clears the expiry, with one (\<open>Addex\<close>, in
  milliseconds) the expiry is now plus the ttl.\<close>

definition Add :: "string \<Rightarrow> string \<Rightarrow> DB \<Rightarrow> DB" where
  "Add k v db = db\<lparr>M := (M db)(k \<mapsto> \<lparr>val = StringValue v, expireAt = None\<rparr>)\<rparr>"

definition Addex :: "int \<Rightarrow> string \<Rightarrow> string \<Rightarrow> int \<Rightarrow> DB \<Rightarrow> DB" where
  "Addex t k v ms db =
     db\<lparr>M := (M db)(k \<mapsto> \<lparr>val = StringValue v, expireAt = Some (t + ms)\<rparr>)\<rparr>"

text \<open>Modelled from the spec: \<open>Get(key)\<close> gives the string of a key that is present. The
  call site takes one \<open>*string\<close> and no error, so the spec's \<open>TypeError\<close> on a key that
  holds a list or a stream has no way out there; the model gives \<open>nil\<close> for it.\<close>

definition Get :: "int \<Rightarrow> string \<Rightarrow> DB \<Rightarrow> string option \<times> DB" where
  "Get t k db =
     (let db' = resolve t k db
      in (case M db' k of
            None \<Rightarrow> (None, db')
          | Some e \<Rightarrow> (case val e of StringValue s \<Rightarrow> (Some s, db') | _ \<Rightarrow> (None, db'))))"

text \<open>Modelled from the spec: \<open>TypeOf(key)\<close> gives the type tag of a key that is present;
  the tags are the names the spec gives the three types.\<close>

definition GetType :: "int \<Rightarrow> string \<Rightarrow> DB \<Rightarrow> string option \<times> DB" where
  "GetType t k db =
     (let db' = resolve t k db
      in (case M db' k of
            None \<Rightarrow> (None, db')
          | Some e \<Rightarrow>
              (case val e of
                 StringValue _ \<Rightarrow> (Some ''string'', db')
               | ListValue _ \<Rightarrow> (Some ''list'', db')
               | StreamValue _ \<Rightarrow> (Some ''stream'', db'))))"

text \<open>Modelled from the spec: \<open>Delete(key) -> bool\<close> removes the key and tells whether it
  existed.\<close>

definition Delete :: "int \<Rightarrow> string \<Rightarrow> DB \<Rightarrow> bool \<times> DB" where
  "Delete t k db =
     (let db' = resolve t k db
      in (M db' k \<noteq> None, db'\<lparr>M := (M db')(k := None)\<rparr>))"

text \<open>Modelled from the spec: \<open>Incr(key)\<close> creates an absent key with value \<open>1\<close>, adds one
  to a string that parses as a base-10 integer, and fails with \<open>NotAnIntegerError\<close> on
  any other string and with \<open>TypeError\<close> on a list or a stream. The call site takes one
  \<open>error\<close> and no integer. The spec gives neither the text of the errors (the model has
  Redis's) nor the result at the largest 64-bit integer (the model does not wrap).\<close>

datatype storeError = NotAnIntegerError | TypeError

definition errorText :: "storeError \<Rightarrow> string" where
  "errorText e =
     (case e of
        NotAnIntegerError \<Rightarrow> ''ERR value is not an integer or out of range''
      | TypeError \<Rightarrow> ''WRONGTYPE Operation against a key holding the wrong kind of value'')"

definition Incr :: "int \<Rightarrow> string \<Rightarrow> DB \<Rightarrow> storeError option \<times> DB" where
  "Incr t k db =
     (let db' = resolve t k db
      in (case M db' k of
            None \<Rightarrow>
              (None, db'\<lparr>M := (M db')(k \<mapsto> \<lparr>val = StringValue ''1'', expireAt = None\<rparr>)\<rparr>)
          | Some e \<Rightarrow>
              (case val e of
                 StringValue s \<Rightarrow>
                   (case Atoi s of
                      None \<Rightarrow> (Some NotAnIntegerError, db')
                    | Some n \<Rightarrow>
                        (None, db'\<lparr>M := (M db')(k \<mapsto> e\<lparr>val := StringValue (Itoa (n + 1))\<rparr>)\<rparr>))
               | _ \<Rightarrow> (Some TypeError, db'))))"

section \<open>What the command layer takes from outside\<close>

text \<open>
  The handlers of the list and stream commands are declared outside \<open>command.go\<close>; each
  takes the command and returns a reply, and is a parameter here. So are the clock the
  store reads (\<open>now\<close>, in milliseconds), the order in which Go's \<open>range\<close> runs through
  the keys of a map (\<open>rangeM\<close>; Go fixes no order), \<open>db.SaveRDB\<close>, which gives
  \<open>None\<close> or the text of its error, and what \<open>strings.ToLower\<close> does on a string with
  a byte of 128 or more (\<open>unicodeToLower\<close>, Go's \<open>Map(unicode.ToLower, s)\<close> over its
  Unicode tables, which for one lowers U+0130 to \<open>i\<close> and U+212A to \<open>k\<close>). Nothing is
  assumed of any of them.
\<close>

type_synonym handler = "Command \<Rightarrow> DB \<Rightarrow> panic + RespData \<times> DB"

record Env =
  now :: int
  rangeM :: "(string \<rightharpoonup> KeyEntry) \<Rightarrow> string list"
  SaveRDB :: "DB \<Rightarrow> string option"
  unicodeToLower :: "string \<Rightarrow> string"
  handleLPushCommand :: handler
  handleRPushCommand :: handler
  handleLPopCommand :: handler
  handleRPopCommand :: handler
  handleLLenCommand :: handler
  handleLRangeCommand :: handler
  handleXAddCommand :: handler
  handleXLenCommand :: handler
  handleXRangeCommand :: handler
  handleXReadCommand :: handler

text \<open>\<open>strings.ToLower\<close>: the ASCII path on a string of ASCII bytes, Go's Unicode
  mapping on every other string.\<close>

definition ToLower :: "Env \<Rightarrow> string \<Rightarrow> string" where
  "ToLower E s = (if isASCII s then map lowerChar s else unicodeToLower E s)"

section \<open>The handlers of command.go\<close>

definition handleTypeCommand :: "Env \<Rightarrow> Command \<Rightarrow> DB \<Rightarrow> RespData \<times> DB" where
  "handleTypeCommand E c db =
     (if length (args c) \<noteq> 1
      then (RespData Error ''ERR wrong number of arguments for 'type' command'' False [], db)
      else (case GetType (now E) (args c ! 0) db of
              (None, db') \<Rightarrow> (RespData SimpleString ''none'' False [], db')
            | (Some t, db') \<Rightarrow> (RespData SimpleString t False [], db')))"

definition handleSetCommand :: "Env \<Rightarrow> Command \<Rightarrow> DB \<Rightarrow> RespData \<times> DB" where
  "handleSetCommand E c db =
     (if length (args c) = 2
      then (RespData SimpleString ''OK'' False [], Add (args c ! 0) (args c ! 1) db)
      else if length (args c) = 4 \<and> ToLower E (args c ! 2) = ''px''
      then (case Atoi (args c ! 3) of
              None \<Rightarrow> (RespData Error ''wrong numeric value for expiry'' False [], db)
            | Some num \<Rightarrow>
                (RespData SimpleString ''OK'' False [],
                 Addex (now E) (args c ! 0) (args c ! 1) num db))
      else (RespData Error ''ERR wrong number of arguments for 'set' command'' False [], db))"

definition handleGetCommand :: "Env \<Rightarrow> Command \<Rightarrow> DB \<Rightarrow> RespData \<times> DB" where
  "handleGetCommand E c db =
     (if length (args c) \<noteq> 1
      then (RespData Error ''ERR wrong number of arguments for 'get' command'' False [], db)
      else (case Get (now E) (args c ! 0) db of
              (None, db') \<Rightarrow> (RespData BulkString [] True [], db')
            | (Some v, db') \<Rightarrow> (RespData BulkString v False [], db')))"

definition handleConfigGet :: "string \<Rightarrow> DB \<Rightarrow> RespData" where
  "handleConfigGet param db =
     (if param = ''dir''
      then RespData Array [] False
             [RespData BulkString ''dir'' False [], RespData BulkString (dir db) False []]
      else if param = ''dbfilename''
      then RespData Array [] False
             [RespData BulkString ''dbfilename'' False [],
              RespData BulkString (dbfilename db) False []]
      else if param = ''port''
      then RespData Array [] False
             [RespData BulkString ''port'' False [], RespData BulkString (port db) False []]
      else RespData Array [] True [])"

definition handleConfigSet :: "string \<Rightarrow> string \<Rightarrow> DB \<Rightarrow> RespData \<times> DB" where
  "handleConfigSet param v db =
     (if param = ''dir'' then (RespData SimpleString ''OK'' False [], db\<lparr>dir := v\<rparr>)
      else if param = ''dbfilename''
      then (RespData SimpleString ''OK'' False [], db\<lparr>dbfilename := v\<rparr>)
      else (RespData Error ''ERR unsupported config parameter'' False [], db))"

text \<open>\<open>cmd.args[2]\<close> is read after the test \<open>len(cmd.args) < 2\<close> only: with two
  arguments it is out of range.\<close>

definition handleConfigCommand :: "Env \<Rightarrow> Command \<Rightarrow> DB \<Rightarrow> panic + RespData \<times> DB" where
  "handleConfigCommand E c db =
     (if length (args c) < 2
      then Inr (RespData Error ''ERR wrong number of arguments for config command'' False [], db)
      else if ToLower E (args c ! 0) = ''get'' then Inr (handleConfigGet (args c ! 1) db, db)
      else if ToLower E (args c ! 0) = ''set''
      then (case index (args c) 2 of
              Inl p \<Rightarrow> Inl p
            | Inr v \<Rightarrow> Inr (handleConfigSet (args c ! 1) v db))
      else Inr (RespData Error ''ERR unknown config subcommand'' False [], db))"

text \<open>The loop prints each key on the standard output too, which the model leaves out.\<close>

definition handleKeysCommand :: "Env \<Rightarrow> Command \<Rightarrow> DB \<Rightarrow> RespData" where
  "handleKeysCommand E c db =
     (if length (args c) \<noteq> 1
      then RespData Error ''ERR wrong number of arguments for 'keys' command'' False []
      else (let keys = map (\<lambda>k. RespData BulkString k False []) (rangeM E (M db))
            in if length keys = 0 then RespData Array [] True []
               else RespData Array [] False keys))"

definition handleIncrCommand :: "Env \<Rightarrow> Command \<Rightarrow> DB \<Rightarrow> RespData \<times> DB" where
  "handleIncrCommand E c db =
     (if length (args c) \<noteq> 1
      then (RespData Error ''ERR wrong number of arguments for 'incr' command'' False [], db)
      else (case Incr (now E) (args c ! 0) db of
              (Some err, db') \<Rightarrow> (RespData Error (errorText err) False [], db')
            | (None, db') \<Rightarrow> (RespData SimpleString ''OK'' False [], db')))"

definition handleDeleteCommand :: "Env \<Rightarrow> Command \<Rightarrow> DB \<Rightarrow> RespData \<times> DB" where
  "handleDeleteCommand E c db =
     (if length (args c) \<noteq> 1
      then (RespData Error ''ERR wrong number of arguments for 'delete' command'' False [], db)
      else (RespData SimpleString ''OK'' False [], snd (Delete (now E) (args c ! 0) db)))"

section \<open>Dispatch and the transaction machine\<close>

text \<open>The second \<open>switch\<close> of \<open>executeCommand\<close> (lines 64 to 123): the commands that
  are neither \<open>multi\<close>, \<open>exec\<close> nor \<open>discard\<close>, once they are not queued.\<close>

definition dispatchCommand :: "Env \<Rightarrow> Command \<Rightarrow> DB \<Rightarrow> panic + RespData \<times> DB" where
  "dispatchCommand E c db =
     (let name = ToLower E (cmd c)
      in if name = ''ping'' then Inr (RespData SimpleString ''PONG'' False [], db)
         else if name = ''echo''
         then (case index (args c) 0 of
                 Inl p \<Rightarrow> Inl p
               | Inr a \<Rightarrow> Inr (RespData BulkString a False [], db))
         else if name = ''set'' then Inr (handleSetCommand E c db)
         else if name = ''delete'' then Inr (handleDeleteCommand E c db)
         else if name = ''get'' then Inr (handleGetCommand E c db)
         else if name = ''save''
         then (case SaveRDB E db of
                 Some err \<Rightarrow> Inr (RespData Error (''ERR '' @ err) False [], db)
               | None \<Rightarrow> Inr (RespData SimpleString ''OK'' False [], db))
         else if name = ''config'' then handleConfigCommand E c db
         else if name = ''keys'' then Inr (handleKeysCommand E c db, db)
         else if name = ''info'' then Inr (RespData BulkString ''role:master'' False [], db)
         else if name = ''incr'' then Inr (handleIncrCommand E c db)
         else if name = ''lpush'' then handleLPushCommand E c db
         else if name = ''rpush'' then handleRPushCommand E c db
         else if name = ''lpop'' then handleLPopCommand E c db
         else if name = ''rpop'' then handleRPopCommand E c db
         else if name = ''llen'' then handleLLenCommand E c db
         else if name = ''lrange'' then handleLRangeCommand E c db
         else if name = ''type'' then Inr (handleTypeCommand E c db)
         else if name = ''xadd'' then handleXAddCommand E c db
         else if name = ''xlen'' then handleXLenCommand E c db
         else if name = ''xrange'' then handleXRangeCommand E c db
         else if name = ''xread'' then handleXReadCommand E c db
         else Inr (RespData Error (''ERR unknown command '' @ [CHR 0x27] @ cmd c @ [CHR 0x27])
                     False [], db))"

text \<open>Modelled from the spec: \<open>handleMultiCommand\<close>, declared outside \<open>command.go\<close>.
  From Normal it moves to Queuing and replies \<open>OK\<close>; issued while Queuing it is an
  error reply and no change of state. The text of the error is Redis's; the spec gives
  none.\<close>

definition handleMultiCommand :: "Command \<Rightarrow> ClientConn \<Rightarrow> RespData \<times> ClientConn" where
  "handleMultiCommand c cc =
     (if isTransaction cc
      then (RespData Error ''ERR MULTI calls can not be nested'' False [], cc)
      else (RespData SimpleString ''OK'' False [],
            cc\<lparr>transactionQueue := [], isTransaction := True\<rparr>))"

text \<open>Modelled from the spec: the replay of \<open>EXEC\<close>, every queued command executed in
  its original order, the replies collected in order. A queued command is executed
  with \<open>context\<close> true, so it is not queued again; the queue holds commands other than
  \<open>multi\<close>, \<open>exec\<close> and \<open>discard\<close> only (lemma \<open>queue_holds_no_control\<close> below), for which
  \<open>executeCommand\<close> with \<open>context\<close> true is \<open>dispatchCommand\<close> (lemma
  \<open>execute_not_queued\<close>). A panic ends the replay. One reading of the clock serves the
  whole replay.\<close>

fun replay :: "Env \<Rightarrow> Command list \<Rightarrow> DB \<Rightarrow> panic + RespData list \<times> DB" where
  "replay E [] db = Inr ([], db)"
| "replay E (q # qs) db =
     (case dispatchCommand E q db of
        Inl p \<Rightarrow> Inl p
      | Inr (r, db') \<Rightarrow>
          (case replay E qs db' of
             Inl p \<Rightarrow> Inl p
           | Inr (rs, db'') \<Rightarrow> Inr (r # rs, db'')))"

text \<open>Modelled from the spec: \<open>handleExecCommand\<close>, declared outside \<open>command.go\<close>.
  From Queuing it replays the queue, replies with the array of the replies, clears the
  queue and moves to Normal; from Normal it is an error reply. The text of the error is
  Redis's; the spec gives none.\<close>

definition handleExecCommand ::
  "Env \<Rightarrow> ClientConn \<Rightarrow> DB \<Rightarrow> panic + RespData \<times> ClientConn \<times> DB" where
  "handleExecCommand E cc db =
     (if \<not> isTransaction cc
      then Inr (RespData Error ''ERR EXEC without MULTI'' False [], cc, db)
      else (case replay E (transactionQueue cc) db of
              Inl p \<Rightarrow> Inl p
            | Inr (rs, db') \<Rightarrow>
                Inr (RespData Array [] False rs,
                     cc\<lparr>transactionQueue := [], isTransaction := False\<rparr>, db')))"

text \<open>Modelled from the spec: \<open>handleDiscardCommand\<close>, declared outside \<open>command.go\<close>.
  From Queuing it clears the queue without executing it, moves to Normal and replies
  \<open>OK\<close>; from Normal it is an error reply. The text of the error is Redis's; the spec
  gives none.\<close>

definition handleDiscardCommand :: "ClientConn \<Rightarrow> RespData \<times> ClientConn" where
  "handleDiscardCommand cc =
     (if \<not> isTransaction cc
      then (RespData Error ''ERR DISCARD without MULTI'' False [], cc)
      else (RespData SimpleString ''OK'' False [],
            cc\<lparr>transactionQueue := [], isTransaction := False\<rparr>))"

text \<open>\<open>executeCommand\<close>: the reply, with the session and the store as the call leaves
  them, or the panic that ends the call.\<close>

definition executeCommand ::
  "Env \<Rightarrow> Command \<Rightarrow> ClientConn \<Rightarrow> bool \<Rightarrow> DB \<Rightarrow> panic + RespData \<times> ClientConn \<times> DB" where
  "executeCommand E c cc context db =
     (let name = ToLower E (cmd c)
      in if name = ''multi''
         then (case handleMultiCommand c cc of (r, cc') \<Rightarrow> Inr (r, cc', db))
         else if name = ''exec'' then handleExecCommand E cc db
         else if name = ''discard''
         then (case handleDiscardCommand cc of (r, cc') \<Rightarrow> Inr (r, cc', db))
         else if isTransaction cc \<and> \<not> context
         then Inr (RespData SimpleString ''QUEUED'' False [],
                   cc\<lparr>transactionQueue := transactionQueue cc @ [c]\<rparr>, db)
         else (case dispatchCommand E c db of
                 Inl p \<Rightarrow> Inl p
               | Inr (r, db') \<Rightarrow> Inr (r, cc, db')))"

text \<open>The replies a connection gets to a sequence of commands: \<open>handleCommand\<close> calls
  \<open>executeCommand\<close> with \<open>context\<close> false on each, in order.\<close>

fun runSession ::
  "Env \<Rightarrow> Command list \<Rightarrow> ClientConn \<Rightarrow> DB \<Rightarrow> panic + RespData list \<times> ClientConn \<times> DB" where
  "runSession E [] cc db = Inr ([], cc, db)"
| "runSession E (c # cs) cc db =
     (case executeCommand E c cc False db of
        Inl p \<Rightarrow> Inl p
      | Inr (r, cc', db') \<Rightarrow>
          (case runSession E cs cc' db' of
             Inl p \<Rightarrow> Inl p
           | Inr (rs, cc'', db'') \<Rightarrow> Inr (r # rs, cc'', db'')))"

section \<open>Writing the reply\<close>

text \<open>The two calls on the writer, \<open>r.Write\<close> and \<open>r.WriteArray\<close>, as values.\<close>

datatype wireWrite = Write RespData | WriteArray "RespData list"

definition handleConfigGetResponse :: "Command \<Rightarrow> DB \<Rightarrow> panic + wireWrite" where
  "handleConfigGetResponse c db =
     (case index (args c) 1 of
        Inl p \<Rightarrow> Inl p
      | Inr a \<Rightarrow>
          (let result = handleConfigGet a db
           in if Type result = Array then Inr (WriteArray (Arr result))
              else Inr (Write result)))"

definition handleCommand ::
  "Env \<Rightarrow> Command \<Rightarrow> ClientConn \<Rightarrow> DB \<Rightarrow> panic + wireWrite \<times> ClientConn \<times> DB" where
  "handleCommand E c cc db =
     (case executeCommand E c cc False db of
        Inl p \<Rightarrow> Inl p
      | Inr (result, cc', db') \<Rightarrow>
          (let standard =
                 (if Type result = Array \<and> length (Arr result) > 0
                  then WriteArray (Arr result) else Write result)
           in if ToLower E (cmd c) = ''config''
              then (case index (args c) 0 of
                      Inl p \<Rightarrow> Inl p
                    | Inr a \<Rightarrow>
                        if ToLower E a = ''get''
                        then (case handleConfigGetResponse c db' of
                                Inl p \<Rightarrow> Inl p
                              | Inr w \<Rightarrow> Inr (w, cc', db'))
                        else Inr (standard, cc', db'))
              else Inr (standard, cc', db')))"

section \<open>Examples and the words of the spec\<close>

text \<open>An environment, a store and a session for the concrete runs below: the handlers
  from outside reply with an error, the clock stands at 0, saving succeeds, \<open>range\<close>
  visits the keys among \<open>a\<close>, \<open>b\<close> and \<open>k\<close> in this order, and a string that is not
  ASCII has its letters \<open>A\<close>..\<open>Z\<close> lowered and nothing else.\<close>

definition exampleHandler :: handler where
  "exampleHandler c db = Inr (RespData Error ''ERR not modelled'' False [], db)"

definition exampleEnv :: Env where
  "exampleEnv =
     \<lparr>now = 0,
      rangeM = (\<lambda>m. filter (\<lambda>k. m k \<noteq> None) [''a'', ''b'', ''k'']),
      SaveRDB = (\<lambda>db. None),
      unicodeToLower = map lowerChar,
      handleLPushCommand = exampleHandler,
      handleRPushCommand = exampleHandler,
      handleLPopCommand = exampleHandler,
      handleRPopCommand = exampleHandler,
      handleLLenCommand = exampleHandler,
      handleLRangeCommand = exampleHandler,
      handleXAddCommand = exampleHandler,
      handleXLenCommand = exampleHandler,
      handleXRangeCommand = exampleHandler,
      handleXReadCommand = exampleHandler\<rparr>"

definition exampleDB :: DB where
  "exampleDB = \<lparr>M = Map.empty, dir = ''/tmp'', dbfilename = ''dump.rdb'', port = ''6379''\<rparr>"

definition normalConn :: ClientConn where
  "normalConn = \<lparr>transactionQueue = [], isTransaction = False\<rparr>"

text \<open>The form of the arity error in the spec's words:
  \<open>ERR wrong number of arguments for '<name>' command\<close>.\<close>

definition arityError :: "string \<Rightarrow> RespData" where
  "arityError name =
     RespData Error
       (''ERR wrong number of arguments for '' @ [CHR 0x27] @ name @ [CHR 0x27] @ '' command'')
       False []"

text \<open>The three commands of the transaction machine, which are never queued.\<close>

definition isControl :: "Env \<Rightarrow> Command \<Rightarrow> bool" where
  "isControl E c =
     (ToLower E (cmd c) = ''multi'' \<or> ToLower E (cmd c) = ''exec'' \<or> ToLower E (cmd c) = ''discard'')"

text \<open>The names \<open>command.go\<close> handles with code of its own, and the names it hands to
  the handlers from outside.\<close>

definition ownNames :: "string list" where
  "ownNames = [''ping'', ''echo'', ''set'', ''delete'', ''get'', ''save'', ''config'', ''keys'',
               ''info'', ''incr'', ''type'']"

definition outsideNames :: "string list" where
  "outsideNames = [''lpush'', ''rpush'', ''lpop'', ''rpop'', ''llen'', ''lrange'', ''xadd'',
                   ''xlen'', ''xrange'', ''xread'']"

text \<open>The handler from outside that the second \<open>switch\<close> calls for a lower-case name.\<close>

definition outsideHandler :: "Env \<Rightarrow> string \<Rightarrow> handler option" where
  "outsideHandler E name =
     map_of
       [(''lpush'', handleLPushCommand E), (''rpush'', handleRPushCommand E),
        (''lpop'', handleLPopCommand E), (''rpop'', handleRPopCommand E),
        (''llen'', handleLLenCommand E), (''lrange'', handleLRangeCommand E),
        (''xadd'', handleXAddCommand E), (''xlen'', handleXLenCommand E),
        (''xrange'', handleXRangeCommand E), (''xread'', handleXReadCommand E)] name"

text \<open>A handler from outside that does not read the name of the command it is given.\<close>

definition ignoresName :: "handler \<Rightarrow> bool" where
  "ignoresName h = (\<forall>c n db. h (c\<lparr>cmd := n\<rparr>) db = h c db)"

section \<open>Properties of parsing\<close>

lemma parseArgs_ok_iff:
  "(\<exists>as. parseArgs items = Inr as) = list_all (\<lambda>x. Type x = BulkString) items"
  by (induction items) (auto split: sum.splits)

lemma parseArgs_value:
  "parseArgs items = Inr as \<Longrightarrow> as = map Str items"
  by (induction items arbitrary: as) (auto split: sum.splits if_splits)

text \<open>
  C8, as the claim states it, fails: the simple string \<open>PING\<close> is no array, and
  \<open>parseCmd\<close> turns it into the command \<open>PING\<close> without arguments.
\<close>

theorem parseCmd_simple_ping_counterexample:
  "Type (RespData SimpleString ''PING'' False []) \<noteq> Array \<and>
   parseCmd (RespData SimpleString ''PING'' False []) = Inr \<lparr>cmd = ''PING'', args = []\<rparr>"
  by (simp add: parseCmd_def)

text \<open>
  C8, amended: \<open>parseCmd\<close> succeeds exactly when its input is the simple string \<open>PING\<close>,
  or an array with at least one element whose elements are all bulk strings; on every
  other input it fails with an error. On such an array the command name is the text of
  the first element and the arguments are the texts of the others, in order.
\<close>

theorem parseCmd_succeeds_iff:
  "((\<exists>c. parseCmd r = Inr c) =
      ((Type r = SimpleString \<and> Str r = ''PING'') \<or>
       (Type r = Array \<and> Arr r \<noteq> [] \<and> list_all (\<lambda>x. Type x = BulkString) (Arr r)))) \<and>
   ((\<exists>e. parseCmd r = Inl e) =
      (\<not> ((Type r = SimpleString \<and> Str r = ''PING'') \<or>
       (Type r = Array \<and> Arr r \<noteq> [] \<and> list_all (\<lambda>x. Type x = BulkString) (Arr r))))) \<and>
   (Type r = Array \<and> Arr r \<noteq> [] \<and> list_all (\<lambda>x. Type x = BulkString) (Arr r) \<longrightarrow>
      parseCmd r = Inr \<lparr>cmd = Str (hd (Arr r)), args = map Str (tl (Arr r))\<rparr>)"
proof -
  let ?ping = "Type r = SimpleString \<and> Str r = ''PING''"
  let ?arr = "Type r = Array \<and> Arr r \<noteq> [] \<and> list_all (\<lambda>x. Type x = BulkString) (Arr r)"
  have val: "parseCmd r = Inr \<lparr>cmd = Str (hd (Arr r)), args = map Str (tl (Arr r))\<rparr>"
    if a: ?arr
  proof -
    from a obtain x xs where xs: "Arr r = x # xs" by (cases "Arr r") auto
    with a have "list_all (\<lambda>x. Type x = BulkString) xs" by simp
    then obtain as where as: "parseArgs xs = Inr as" using parseArgs_ok_iff by blast
    then have "as = map Str xs" by (rule parseArgs_value)
    with a xs as show ?thesis by (simp add: parseCmd_def)
  qed
  have fails: "\<exists>e. parseCmd r = Inl e" if n: "\<not> (?ping \<or> ?arr)"
  proof (cases "Type r = Array \<and> Arr r \<noteq> [] \<and> Type (hd (Arr r)) = BulkString")
    case True
    then obtain x xs where xs: "Arr r = x # xs" by (cases "Arr r") auto
    with True n have "\<not> list_all (\<lambda>x. Type x = BulkString) xs" by auto
    then have "\<not> (\<exists>as. parseArgs xs = Inr as)" using parseArgs_ok_iff by blast
    then obtain e where "parseArgs xs = Inl e" by (cases "parseArgs xs") auto
    with True xs show ?thesis by (simp add: parseCmd_def)
  next
    case False
    with n show ?thesis by (cases "Arr r") (auto simp add: parseCmd_def)
  qed
  have ping: "\<exists>c. parseCmd r = Inr c" if ?ping using that by (simp add: parseCmd_def)
  have ok: "(\<exists>c. parseCmd r = Inr c) = (?ping \<or> ?arr)"
  proof
    assume "\<exists>c. parseCmd r = Inr c"
    then show "?ping \<or> ?arr" using fails by (cases "?ping \<or> ?arr") auto
  next
    assume "?ping \<or> ?arr"
    then show "\<exists>c. parseCmd r = Inr c" using ping val by blast
  qed
  have err: "(\<exists>e. parseCmd r = Inl e) = (\<not> (?ping \<or> ?arr))"
    using ok by (cases "parseCmd r") auto
  from ok err val show ?thesis by blast
qed

theorem parseCmd_succeeds_iff_witness:
  "parseCmd (RespData Array [] False
      [RespData BulkString ''GET'' False [], RespData BulkString ''k'' False []])
     = Inr \<lparr>cmd = ''GET'', args = [''k'']\<rparr> \<and>
   (\<exists>e. parseCmd (RespData Array [] False
      [RespData BulkString ''GET'' False [], RespData Integer ''1'' False []]) = Inl e)"
  using parseCmd_succeeds_iff
    [of "RespData Array [] False
      [RespData BulkString ''GET'' False [], RespData BulkString ''k'' False []]"]
    parseCmd_succeeds_iff
    [of "RespData Array [] False
      [RespData BulkString ''GET'' False [], RespData Integer ''1'' False []]"]
  by simp

section \<open>Evaluating the library functions\<close>

lemma lowerChar_examples:
  "map lowerChar ''SET'' = ''set''"
  "map lowerChar ''ECHO'' = ''echo''"
  "map lowerChar ''CONFIG'' = ''config''"
  "map lowerChar ''GET'' = ''get''"
  "map lowerChar ''get'' = ''get''"
  "map lowerChar ''MULTI'' = ''multi''"
  "map lowerChar ''EXEC'' = ''exec''"
  "map lowerChar ''INCR'' = ''incr''"
  "map lowerChar ''DELETE'' = ''delete''"
  "map lowerChar ''KEYS'' = ''keys''"
  "map lowerChar ''LPUSH'' = ''lpush''"
  "map lowerChar ''lpush'' = ''lpush''"
  "map lowerChar ''FOO'' = ''foo''"
  "map lowerChar ''foo'' = ''foo''"
  by code_simp+

lemma ToLower_examples:
  "ToLower E ''SET'' = ''set''"
  "ToLower E ''ECHO'' = ''echo''"
  "ToLower E ''CONFIG'' = ''config''"
  "ToLower E ''GET'' = ''get''"
  "ToLower E ''get'' = ''get''"
  "ToLower E ''MULTI'' = ''multi''"
  "ToLower E ''EXEC'' = ''exec''"
  "ToLower E ''INCR'' = ''incr''"
  "ToLower E ''DELETE'' = ''delete''"
  "ToLower E ''KEYS'' = ''keys''"
  "ToLower E ''LPUSH'' = ''lpush''"
  "ToLower E ''lpush'' = ''lpush''"
  "ToLower E ''FOO'' = ''foo''"
  "ToLower E ''foo'' = ''foo''"
  by (simp_all only: ToLower_def lowerChar_examples) (simp_all add: isASCII_def)

lemma Atoi_1: "Atoi ''1'' = Some 1"
  by code_simp

lemma Itoa_2: "Itoa 2 = ''2''"
  by code_simp

text \<open>The lower-case names of the two \<open>switch\<close> statements are ASCII and in lower case,
  so each is its own lower-case form, whatever Go does outside ASCII.\<close>

lemma supported_names_lower:
  "list_all (\<lambda>name. isASCII name \<and> map lowerChar name = name)
     (ownNames @ outsideNames @ [''multi'', ''exec'', ''discard''])"
  by code_simp

lemma ToLower_supported_name:
  assumes "name \<in> set ownNames \<or> name \<in> set outsideNames \<or> name = ''multi'' \<or>
           name = ''exec'' \<or> name = ''discard''"
  shows "ToLower E name = name"
proof -
  from assms have "name \<in> set (ownNames @ outsideNames @ [''multi'', ''exec'', ''discard''])"
    by auto
  with supported_names_lower have "isASCII name \<and> map lowerChar name = name"
    unfolding list_all_iff by blast
  then show ?thesis by (simp add: ToLower_def)
qed

section \<open>Lazy expiration\<close>

lemma resolve_other: "k' \<noteq> k \<Longrightarrow> M (resolve t k db) k' = M db k'"
  by (simp add: resolve_def split: option.splits)

lemma resolve_same:
  "M (resolve t k db) k =
     (case M db k of None \<Rightarrow> None | Some e \<Rightarrow> if expired t e then None else Some e)"
  by (simp add: resolve_def split: option.splits)

section \<open>Dispatch, queueing and the name of the command\<close>

lemma own_handlers_ignore_name:
  "handleSetCommand E (c\<lparr>cmd := n\<rparr>) db = handleSetCommand E c db"
  "handleDeleteCommand E (c\<lparr>cmd := n\<rparr>) db = handleDeleteCommand E c db"
  "handleGetCommand E (c\<lparr>cmd := n\<rparr>) db = handleGetCommand E c db"
  "handleConfigCommand E (c\<lparr>cmd := n\<rparr>) db = handleConfigCommand E c db"
  "handleKeysCommand E (c\<lparr>cmd := n\<rparr>) db = handleKeysCommand E c db"
  "handleIncrCommand E (c\<lparr>cmd := n\<rparr>) db = handleIncrCommand E c db"
  "handleTypeCommand E (c\<lparr>cmd := n\<rparr>) db = handleTypeCommand E c db"
  by (simp_all add: handleSetCommand_def handleDeleteCommand_def handleGetCommand_def
      handleConfigCommand_def handleKeysCommand_def handleIncrCommand_def handleTypeCommand_def
      split: option.splits sum.splits)

lemma dispatch_own_name:
  assumes "ToLower E (cmd c) \<in> set ownNames" and "ToLower E n = ToLower E (cmd c)"
  shows "dispatchCommand E (c\<lparr>cmd := n\<rparr>) db = dispatchCommand E c db"
  using assms
  by (auto simp add: dispatchCommand_def ownNames_def own_handlers_ignore_name Let_def)

text \<open>The second \<open>switch\<close> hands a list or stream command to its handler from outside,
  with the command as it was typed.\<close>

lemma dispatch_outside:
  assumes "outsideHandler E (ToLower E (cmd c)) = Some h"
  shows "dispatchCommand E c db = h c db"
  using assms
  by (auto simp add: dispatchCommand_def outsideHandler_def Let_def split: if_splits)

lemma outsideHandler_names:
  "(outsideHandler E name = None) = (name \<notin> set outsideNames)"
  by (simp add: outsideHandler_def outsideNames_def)

lemma dispatch_outside_name:
  assumes "outsideHandler E (ToLower E (cmd c)) = Some h" and "ignoresName h"
    and "ToLower E n = ToLower E (cmd c)"
  shows "dispatchCommand E (c\<lparr>cmd := n\<rparr>) db = dispatchCommand E c db"
proof -
  have "dispatchCommand E (c\<lparr>cmd := n\<rparr>) db = h (c\<lparr>cmd := n\<rparr>) db"
    using assms(1,3) by (simp add: dispatch_outside)
  also have "\<dots> = h c db" using assms(2) by (simp add: ignoresName_def)
  also have "\<dots> = dispatchCommand E c db" using assms(1) by (simp add: dispatch_outside)
  finally show ?thesis .
qed

lemma dispatch_unknown_name:
  assumes "ToLower E (cmd c) \<notin> set ownNames" and "ToLower E (cmd c) \<notin> set outsideNames"
  shows "dispatchCommand E c db =
           Inr (RespData Error (''ERR unknown command '' @ [CHR 0x27] @ cmd c @ [CHR 0x27])
                  False [], db)"
  using assms
  by (simp add: dispatchCommand_def ownNames_def outsideNames_def Let_def)

text \<open>\<open>exec\<close> and \<open>discard\<close> go to handlers that are not given the command.\<close>

lemma execute_exec_discard_name:
  assumes "ToLower E (cmd c) = ''exec'' \<or> ToLower E (cmd c) = ''discard''"
    and "ToLower E n = ToLower E (cmd c)"
  shows "executeCommand E (c\<lparr>cmd := n\<rparr>) cc context db = executeCommand E c cc context db"
  using assms by (auto simp add: executeCommand_def Let_def)

lemma execute_multi:
  assumes "ToLower E (cmd c) = ''multi''"
  shows "executeCommand E c cc context db =
           (case handleMultiCommand c cc of (r, cc') \<Rightarrow> Inr (r, cc', db))"
  using assms by (simp add: executeCommand_def Let_def)

lemma execute_not_queued:
  assumes "\<not> isControl E c" and "\<not> isTransaction cc \<or> context"
  shows "executeCommand E c cc context db =
           (case dispatchCommand E c db of
              Inl p \<Rightarrow> Inl p
            | Inr (r, db') \<Rightarrow> Inr (r, cc, db'))"
  using assms by (auto simp add: executeCommand_def isControl_def Let_def)

lemma execute_queued:
  assumes "\<not> isControl E c" and "isTransaction cc"
  shows "executeCommand E c cc False db =
           Inr (RespData SimpleString ''QUEUED'' False [],
                cc\<lparr>transactionQueue := transactionQueue cc @ [c]\<rparr>, db)"
  using assms by (simp add: executeCommand_def isControl_def Let_def)

lemma isControl_name:
  "ToLower E n = ToLower E (cmd c) \<Longrightarrow> isControl E (c\<lparr>cmd := n\<rparr>) = isControl E c"
  by (simp add: isControl_def)

text \<open>Whatever \<open>executeCommand\<close> does, a queue without \<open>multi\<close>, \<open>exec\<close> and \<open>discard\<close>
  stays one: the replay of \<open>EXEC\<close> never meets one of the three.\<close>

lemma queue_holds_no_control:
  assumes "executeCommand E c cc context db = Inr (r, cc', db')"
    and "list_all (\<lambda>q. \<not> isControl E q) (transactionQueue cc)"
  shows "list_all (\<lambda>q. \<not> isControl E q) (transactionQueue cc')"
proof (cases "isControl E c")
  case True
  with assms show ?thesis
    by (auto simp add: executeCommand_def isControl_def handleMultiCommand_def
        handleExecCommand_def handleDiscardCommand_def Let_def
        split: if_splits sum.splits prod.splits)
next
  case False
  show ?thesis
  proof (cases "isTransaction cc \<and> \<not> context")
    case True
    with False assms show ?thesis
      by (auto simp add: executeCommand_def isControl_def Let_def)
  next
    case False
    with \<open>\<not> isControl E c\<close> assms show ?thesis
      by (auto simp add: execute_not_queued split: sum.splits prod.splits)
  qed
qed

text \<open>\<open>handleCommand\<close> reads the name through \<open>strings.ToLower\<close> only, and
  \<open>handleConfigGetResponse\<close> reads the arguments only.\<close>

lemma handleCommand_name:
  assumes "ToLower E n = ToLower E (cmd c)"
    and "executeCommand E (c\<lparr>cmd := n\<rparr>) cc False db = executeCommand E c cc False db"
  shows "handleCommand E (c\<lparr>cmd := n\<rparr>) cc db = handleCommand E c cc db"
  using assms
  by (simp add: handleCommand_def handleConfigGetResponse_def Let_def
      split: sum.splits prod.splits)

text \<open>What \<open>handleCommand\<close> does with a command that \<open>executeCommand\<close> queued: it writes
  \<open>QUEUED\<close> unless the command is \<open>config\<close>.\<close>

lemma handleCommand_queued:
  assumes "\<not> isControl E c" and "isTransaction cc"
  shows "handleCommand E c cc db =
           (if ToLower E (cmd c) = ''config''
            then (case index (args c) 0 of
                    Inl p \<Rightarrow> Inl p
                  | Inr a \<Rightarrow>
                      if ToLower E a = ''get''
                      then (case handleConfigGetResponse c db of
                              Inl p \<Rightarrow> Inl p
                            | Inr w \<Rightarrow>
                                Inr (w, cc\<lparr>transactionQueue := transactionQueue cc @ [c]\<rparr>, db))
                      else Inr (Write (RespData SimpleString ''QUEUED'' False []),
                                cc\<lparr>transactionQueue := transactionQueue cc @ [c]\<rparr>, db))
            else Inr (Write (RespData SimpleString ''QUEUED'' False []),
                      cc\<lparr>transactionQueue := transactionQueue cc @ [c]\<rparr>, db))"
  using assms by (simp add: handleCommand_def execute_queued)

text \<open>The handlers of \<open>command.go\<close> that test the number of arguments reply to a wrong
  one with the name in single quotes, and leave the store alone.\<close>

lemma dispatch_wrong_arity:
  "(length (args c) \<noteq> 1 \<longrightarrow>
      (ToLower E (cmd c) = ''type'' \<longrightarrow> dispatchCommand E c db = Inr (arityError ''type'', db)) \<and>
      (ToLower E (cmd c) = ''get'' \<longrightarrow> dispatchCommand E c db = Inr (arityError ''get'', db)) \<and>
      (ToLower E (cmd c) = ''keys'' \<longrightarrow> dispatchCommand E c db = Inr (arityError ''keys'', db)) \<and>
      (ToLower E (cmd c) = ''incr'' \<longrightarrow> dispatchCommand E c db = Inr (arityError ''incr'', db)) \<and>
      (ToLower E (cmd c) = ''delete'' \<longrightarrow>
         dispatchCommand E c db = Inr (arityError ''delete'', db))) \<and>
   (length (args c) \<noteq> 2 \<and> (length (args c) = 4 \<longrightarrow> ToLower E (args c ! 2) \<noteq> ''px'') \<and>
    ToLower E (cmd c) = ''set'' \<longrightarrow>
      dispatchCommand E c db = Inr (arityError ''set'', db))"
  by (simp add: dispatchCommand_def handleTypeCommand_def handleGetCommand_def
      handleKeysCommand_def handleIncrCommand_def handleDeleteCommand_def
      handleSetCommand_def arityError_def Let_def)

section \<open>The transaction machine\<close>

text \<open>
  C1, as the claim states it, fails: on a store without the key \<open>k\<close>, \<open>MULTI\<close>, \<open>INCR k\<close>,
  \<open>INCR k\<close>, \<open>EXEC\<close> are answered \<open>OK\<close>, \<open>QUEUED\<close>, \<open>QUEUED\<close> and an array of two simple
  strings \<open>OK\<close>; no element of the array is an integer.
\<close>

theorem multi_incr_exec_counterexample:
  "runSession exampleEnv
     [\<lparr>cmd = ''MULTI'', args = []\<rparr>, \<lparr>cmd = ''INCR'', args = [''k'']\<rparr>,
      \<lparr>cmd = ''INCR'', args = [''k'']\<rparr>, \<lparr>cmd = ''EXEC'', args = []\<rparr>] normalConn exampleDB =
   Inr ([RespData SimpleString ''OK'' False [], RespData SimpleString ''QUEUED'' False [],
         RespData SimpleString ''QUEUED'' False [],
         RespData Array [] False
           [RespData SimpleString ''OK'' False [], RespData SimpleString ''OK'' False []]],
        normalConn,
        exampleDB\<lparr>M := [''k'' \<mapsto> \<lparr>val = StringValue ''2'', expireAt = None\<rparr>]\<rparr>) \<and>
   map Type [RespData SimpleString ''OK'' False [], RespData SimpleString ''OK'' False []] \<noteq>
     [Integer, Integer]"
  by (simp add: executeCommand_def handleMultiCommand_def handleExecCommand_def
      dispatchCommand_def handleIncrCommand_def Incr_def resolve_def expired_def normalConn_def
      exampleDB_def exampleEnv_def ToLower_examples Atoi_1 Itoa_2 Let_def)

text \<open>
  C1, amended: after \<open>MULTI\<close>, queueing \<open>INCR k\<close> twice on a key \<open>k\<close> that the store does
  not hold and then issuing \<open>EXEC\<close>, the \<open>EXEC\<close> reply is the array of the two commands'
  replies in order, which are the simple strings \<open>OK\<close> and \<open>OK\<close> (a replayed \<open>INCR\<close>
  replies \<open>OK\<close>, not the integer); the key then holds the string \<open>2\<close>, and the session
  is back in the Normal state with an empty queue.
\<close>

theorem multi_incr_exec_replies:
  assumes "M db k = None"
  shows "runSession E
     [\<lparr>cmd = ''MULTI'', args = []\<rparr>, \<lparr>cmd = ''INCR'', args = [k]\<rparr>,
      \<lparr>cmd = ''INCR'', args = [k]\<rparr>, \<lparr>cmd = ''EXEC'', args = []\<rparr>] normalConn db =
   Inr ([RespData SimpleString ''OK'' False [], RespData SimpleString ''QUEUED'' False [],
         RespData SimpleString ''QUEUED'' False [],
         RespData Array [] False
           [RespData SimpleString ''OK'' False [], RespData SimpleString ''OK'' False []]],
        normalConn,
        db\<lparr>M := (M db)(k \<mapsto> \<lparr>val = StringValue ''2'', expireAt = None\<rparr>)\<rparr>)"
  using assms
  by (simp add: executeCommand_def handleMultiCommand_def handleExecCommand_def
      dispatchCommand_def handleIncrCommand_def Incr_def resolve_def expired_def normalConn_def
      ToLower_examples Atoi_1 Itoa_2 Let_def)

theorem multi_incr_exec_replies_witness:
  "M exampleDB ''k'' = None \<and>
   (\<exists>cc db. runSession exampleEnv
     [\<lparr>cmd = ''MULTI'', args = []\<rparr>, \<lparr>cmd = ''INCR'', args = [''k'']\<rparr>,
      \<lparr>cmd = ''INCR'', args = [''k'']\<rparr>, \<lparr>cmd = ''EXEC'', args = []\<rparr>] normalConn exampleDB =
   Inr ([RespData SimpleString ''OK'' False [], RespData SimpleString ''QUEUED'' False [],
         RespData SimpleString ''QUEUED'' False [],
         RespData Array [] False
           [RespData SimpleString ''OK'' False [], RespData SimpleString ''OK'' False []]],
        cc, db))"
proof -
  have h: "M exampleDB ''k'' = None" by (simp add: exampleDB_def)
  show ?thesis using h multi_incr_exec_replies [OF h, of exampleEnv] by blast
qed

text \<open>
  C3: in the Queuing state every command other than \<open>MULTI\<close>, \<open>EXEC\<close> and \<open>DISCARD\<close>
  should be appended to the queue, leave the store alone and be answered \<open>QUEUED\<close>.
  \<open>executeCommand\<close> does so, but \<open>handleCommand\<close> does not write its reply for
  \<open>CONFIG\<close>: a queued \<open>CONFIG GET dir\<close> is answered with the array of the parameter
  and its value, and a queued \<open>CONFIG\<close> without argument ends in a panic on
  \<open>cmd.args[0]\<close>; a queued \<open>GET k\<close> is answered \<open>QUEUED\<close>.
\<close>

theorem queued_config_get_reply:
  "executeCommand E \<lparr>cmd = ''CONFIG'', args = [''GET'', ''dir'']\<rparr>
       \<lparr>transactionQueue = q, isTransaction = True\<rparr> False db =
     Inr (RespData SimpleString ''QUEUED'' False [],
          \<lparr>transactionQueue = q @ [\<lparr>cmd = ''CONFIG'', args = [''GET'', ''dir'']\<rparr>],
           isTransaction = True\<rparr>, db) \<and>
   handleCommand E \<lparr>cmd = ''CONFIG'', args = [''GET'', ''dir'']\<rparr>
       \<lparr>transactionQueue = q, isTransaction = True\<rparr> db =
     Inr (WriteArray [RespData BulkString ''dir'' False [],
                      RespData BulkString (dir db) False []],
          \<lparr>transactionQueue = q @ [\<lparr>cmd = ''CONFIG'', args = [''GET'', ''dir'']\<rparr>],
           isTransaction = True\<rparr>, db) \<and>
   handleCommand E \<lparr>cmd = ''CONFIG'', args = []\<rparr>
       \<lparr>transactionQueue = q, isTransaction = True\<rparr> db =
     Inl (IndexOutOfRange 0 0) \<and>
   handleCommand E \<lparr>cmd = ''GET'', args = [''k'']\<rparr>
       \<lparr>transactionQueue = q, isTransaction = True\<rparr> db =
     Inr (Write (RespData SimpleString ''QUEUED'' False []),
          \<lparr>transactionQueue = q @ [\<lparr>cmd = ''GET'', args = [''k'']\<rparr>],
           isTransaction = True\<rparr>, db)"
  by (simp add: handleCommand_def executeCommand_def handleConfigGetResponse_def
      handleConfigGet_def index_def ToLower_examples Let_def)

section \<open>Missing arguments\<close>

text \<open>
  C2: command execution should return a reply for every command. It does not: the
  decoded array of the single bulk string \<open>ECHO\<close> parses into \<open>ECHO\<close> without
  arguments, on which \<open>executeCommand\<close> reads \<open>cmd.args[0]\<close> and panics; and
  \<open>CONFIG SET dir\<close> passes the test \<open>len(cmd.args) < 2\<close> and panics on \<open>cmd.args[2]\<close>.
\<close>

theorem executeCommand_missing_argument_panics:
  "parseCmd (RespData Array [] False [RespData BulkString ''ECHO'' False []]) =
     Inr \<lparr>cmd = ''ECHO'', args = []\<rparr> \<and>
   executeCommand E \<lparr>cmd = ''ECHO'', args = []\<rparr> normalConn False db =
     Inl (IndexOutOfRange 0 0) \<and>
   executeCommand E \<lparr>cmd = ''CONFIG'', args = [''SET'', ''dir'']\<rparr> normalConn False db =
     Inl (IndexOutOfRange 2 2)"
  by (simp add: parseCmd_def executeCommand_def dispatchCommand_def handleConfigCommand_def
      index_def normalConn_def ToLower_examples Let_def)

text \<open>
  C4: every supported command with a wrong number of arguments should be answered
  with the error \<open>ERR wrong number of arguments for '<name>' command\<close>, the name in
  single quotes. \<open>GET\<close> without argument is, as are the other handlers that test the
  number of arguments; \<open>CONFIG SET\<close> alone is answered with the text
  \<open>ERR wrong number of arguments for config command\<close>, the name without the quotes;
  and \<open>CONFIG\<close> without argument and \<open>CONFIG GET\<close> alone are not answered at all:
  after the error is computed, \<open>handleCommand\<close> panics on \<open>cmd.args[0]\<close> and
  \<open>handleConfigGetResponse\<close> on \<open>cmd.args[1]\<close>.
\<close>

theorem config_wrong_arity_reply:
  "handleCommand E \<lparr>cmd = ''GET'', args = []\<rparr> normalConn db =
     Inr (Write (arityError ''get''), normalConn, db) \<and>
   handleCommand E \<lparr>cmd = ''CONFIG'', args = [''SET'']\<rparr> normalConn db =
     Inr (Write (RespData Error ''ERR wrong number of arguments for config command'' False []),
          normalConn, db) \<and>
   RespData Error ''ERR wrong number of arguments for config command'' False [] \<noteq>
     arityError ''config'' \<and>
   executeCommand E \<lparr>cmd = ''CONFIG'', args = []\<rparr> normalConn False db =
     Inr (RespData Error ''ERR wrong number of arguments for config command'' False [],
          normalConn, db) \<and>
   handleCommand E \<lparr>cmd = ''CONFIG'', args = []\<rparr> normalConn db = Inl (IndexOutOfRange 0 0) \<and>
   handleCommand E \<lparr>cmd = ''CONFIG'', args = [''GET'']\<rparr> normalConn db =
     Inl (IndexOutOfRange 1 1)"
  by (simp add: handleCommand_def executeCommand_def dispatchCommand_def
      handleConfigCommand_def handleGetCommand_def handleConfigGetResponse_def index_def
      arityError_def normalConn_def ToLower_examples Let_def)

section \<open>Configuration\<close>

text \<open>
  C5, as the claim states it, fails: \<open>CONFIG GET\<close> with a parameter name it does not
  know replies with the null array, which is no error reply.
\<close>

theorem config_get_unknown_counterexample:
  "executeCommand exampleEnv \<lparr>cmd = ''CONFIG'', args = [''GET'', ''maxmemory'']\<rparr>
       normalConn False exampleDB =
     Inr (RespData Array [] True [], normalConn, exampleDB) \<and>
   Type (RespData Array [] True []) \<noteq> Error"
  by (simp add: executeCommand_def dispatchCommand_def handleConfigCommand_def
      handleConfigGet_def normalConn_def ToLower_examples Let_def)

text \<open>
  C5, amended: \<open>CONFIG SET\<close> with a parameter name other than \<open>dir\<close> and \<open>dbfilename\<close>
  replies with the error \<open>ERR unsupported config parameter\<close> and changes nothing;
  \<open>CONFIG GET\<close> with a parameter name other than \<open>dir\<close>, \<open>dbfilename\<close> and \<open>port\<close>
  replies with the null array, not with an error, and what is written for it is an
  array without elements.
\<close>

theorem config_unknown_parameter:
  "(ToLower E sub = ''set'' \<and> p \<noteq> ''dir'' \<and> p \<noteq> ''dbfilename'' \<longrightarrow>
      handleConfigCommand E \<lparr>cmd = n, args = sub # p # v # rest\<rparr> db =
        Inr (RespData Error ''ERR unsupported config parameter'' False [], db)) \<and>
   (ToLower E sub = ''get'' \<and> p \<noteq> ''dir'' \<and> p \<noteq> ''dbfilename'' \<and> p \<noteq> ''port'' \<longrightarrow>
      handleConfigCommand E \<lparr>cmd = n, args = sub # p # rest\<rparr> db =
        Inr (RespData Array [] True [], db) \<and>
      handleConfigGetResponse \<lparr>cmd = n, args = sub # p # rest\<rparr> db = Inr (WriteArray []))"
  by (simp add: handleConfigCommand_def handleConfigSet_def handleConfigGet_def
      handleConfigGetResponse_def index_def)

theorem config_unknown_parameter_witness:
  "handleConfigCommand exampleEnv \<lparr>cmd = ''CONFIG'', args = [''SET'', ''maxmemory'', ''1'']\<rparr> exampleDB =
     Inr (RespData Error ''ERR unsupported config parameter'' False [], exampleDB) \<and>
   handleConfigCommand exampleEnv \<lparr>cmd = ''CONFIG'', args = [''GET'', ''maxmemory'']\<rparr> exampleDB =
     Inr (RespData Array [] True [], exampleDB)"
  using config_unknown_parameter [where E = exampleEnv and sub = "''SET''" and p = "''maxmemory''"
      and n = "''CONFIG''" and v = "''1''" and rest = "[]" and db = exampleDB]
    config_unknown_parameter [where E = exampleEnv and sub = "''GET''" and p = "''maxmemory''"
      and n = "''CONFIG''" and v = "''1''" and rest = "[]" and db = exampleDB]
  by (simp add: ToLower_examples)

text \<open>
  C6, as the claim states it, fails: \<open>CONFIG SET port 7000\<close> replies with an error and
  stores nothing.
\<close>

theorem config_set_port_counterexample:
  "handleConfigCommand exampleEnv \<lparr>cmd = ''CONFIG'', args = [''SET'', ''port'', ''7000'']\<rparr> exampleDB =
     Inr (RespData Error ''ERR unsupported config parameter'' False [], exampleDB) \<and>
   port exampleDB \<noteq> ''7000''"
  by (simp add: handleConfigCommand_def handleConfigSet_def index_def ToLower_examples
      exampleDB_def)

text \<open>
  C6, amended: \<open>CONFIG GET p\<close> replies with the name and the current value for each
  \<open>p\<close> of \<open>dir\<close>, \<open>dbfilename\<close> and \<open>port\<close>; \<open>CONFIG SET p v\<close> stores \<open>v\<close> and replies
  \<open>OK\<close> for \<open>dir\<close> and \<open>dbfilename\<close>, and for \<open>port\<close> it replies with the error
  \<open>ERR unsupported config parameter\<close> and stores nothing.
\<close>

theorem config_parameters:
  "(ToLower E sub = ''get'' \<longrightarrow>
      handleConfigCommand E \<lparr>cmd = n, args = [sub, ''dir'']\<rparr> db =
        Inr (RespData Array [] False
               [RespData BulkString ''dir'' False [], RespData BulkString (dir db) False []],
             db) \<and>
      handleConfigCommand E \<lparr>cmd = n, args = [sub, ''dbfilename'']\<rparr> db =
        Inr (RespData Array [] False
               [RespData BulkString ''dbfilename'' False [],
                RespData BulkString (dbfilename db) False []], db) \<and>
      handleConfigCommand E \<lparr>cmd = n, args = [sub, ''port'']\<rparr> db =
        Inr (RespData Array [] False
               [RespData BulkString ''port'' False [], RespData BulkString (port db) False []],
             db)) \<and>
   (ToLower E sub = ''set'' \<longrightarrow>
      handleConfigCommand E \<lparr>cmd = n, args = [sub, ''dir'', v]\<rparr> db =
        Inr (RespData SimpleString ''OK'' False [], db\<lparr>dir := v\<rparr>) \<and>
      handleConfigCommand E \<lparr>cmd = n, args = [sub, ''dbfilename'', v]\<rparr> db =
        Inr (RespData SimpleString ''OK'' False [], db\<lparr>dbfilename := v\<rparr>) \<and>
      handleConfigCommand E \<lparr>cmd = n, args = [sub, ''port'', v]\<rparr> db =
        Inr (RespData Error ''ERR unsupported config parameter'' False [], db))"
  by (simp add: handleConfigCommand_def handleConfigSet_def handleConfigGet_def index_def)

theorem config_parameters_witness:
  "handleConfigCommand exampleEnv \<lparr>cmd = ''CONFIG'', args = [''GET'', ''port'']\<rparr> exampleDB =
     Inr (RespData Array [] False
            [RespData BulkString ''port'' False [], RespData BulkString ''6379'' False []],
          exampleDB) \<and>
   handleConfigCommand exampleEnv \<lparr>cmd = ''CONFIG'', args = [''SET'', ''dir'', ''/data'']\<rparr> exampleDB =
     Inr (RespData SimpleString ''OK'' False [], exampleDB\<lparr>dir := ''/data''\<rparr>)"
  using config_parameters [where E = exampleEnv and sub = "''GET''" and n = "''CONFIG''"
      and db = exampleDB and v = "''/data''"]
    config_parameters [where E = exampleEnv and sub = "''SET''" and n = "''CONFIG''"
      and db = exampleDB and v = "''/data''"]
  by (simp add: ToLower_examples exampleDB_def)

section \<open>Deleting and listing keys\<close>

text \<open>
  C7, as the claim states it, fails: \<open>DELETE k\<close> has the same reply on a store that
  holds \<open>k\<close> and on one that does not.
\<close>

theorem delete_reply_counterexample:
  "M (exampleDB\<lparr>M := [''k'' \<mapsto> \<lparr>val = StringValue ''v'', expireAt = None\<rparr>]\<rparr>) ''k'' \<noteq> None \<and>
   M exampleDB ''k'' = None \<and>
   fst (handleDeleteCommand exampleEnv \<lparr>cmd = ''DELETE'', args = [''k'']\<rparr>
          (exampleDB\<lparr>M := [''k'' \<mapsto> \<lparr>val = StringValue ''v'', expireAt = None\<rparr>]\<rparr>)) =
   fst (handleDeleteCommand exampleEnv \<lparr>cmd = ''DELETE'', args = [''k'']\<rparr> exampleDB)"
  by (simp add: handleDeleteCommand_def exampleDB_def)

text \<open>
  C7, amended: the store's \<open>Delete(key)\<close> removes the key, leaves the other keys alone
  and returns a boolean that is true if and only if the key existed (was present and
  not expired); the \<open>DELETE\<close> command with one argument drops that boolean and always
  replies with the simple string \<open>OK\<close>, so the reply does not tell a present key from
  an absent one.
\<close>

theorem delete_reply:
  "(length (args c) = 1 \<longrightarrow>
      fst (handleDeleteCommand E c db) = RespData SimpleString ''OK'' False [] \<and>
      snd (handleDeleteCommand E c db) = snd (Delete (now E) (args c ! 0) db)) \<and>
   fst (Delete t k db) = (\<exists>e. M db k = Some e \<and> \<not> expired t e) \<and>
   M (snd (Delete t k db)) k = None \<and>
   (k' \<noteq> k \<longrightarrow> M (snd (Delete t k db)) k' = M db k')"
  by (auto simp add: handleDeleteCommand_def Delete_def Let_def resolve_same resolve_other
      split: option.splits if_splits)

theorem delete_reply_witness:
  "fst (handleDeleteCommand exampleEnv \<lparr>cmd = ''DELETE'', args = [''k'']\<rparr>
          (exampleDB\<lparr>M := [''k'' \<mapsto> \<lparr>val = StringValue ''v'', expireAt = None\<rparr>]\<rparr>)) =
     RespData SimpleString ''OK'' False [] \<and>
   M (snd (handleDeleteCommand exampleEnv \<lparr>cmd = ''DELETE'', args = [''k'']\<rparr>
          (exampleDB\<lparr>M := [''k'' \<mapsto> \<lparr>val = StringValue ''v'', expireAt = None\<rparr>]\<rparr>))) ''k'' = None"
  using delete_reply [of "\<lparr>cmd = ''DELETE'', args = [''k'']\<rparr>" exampleEnv
      "exampleDB\<lparr>M := [''k'' \<mapsto> \<lparr>val = StringValue ''v'', expireAt = None\<rparr>]\<rparr>" 0 "''k''" "''a''"]
  by (simp add: exampleEnv_def)

text \<open>
  C10: for every store, \<open>KEYS\<close> with exactly one argument replies with an array of bulk
  strings that holds every key of the map \<open>M\<close> once, in the order \<open>range\<close> visits them;
  the reply is the same for every pattern, which is never read; and on a map without
  keys the reply is the null array, not the empty one. The store is left as it is.
\<close>

theorem keys_reply:
  assumes "length (args c) = 1"
    and "distinct (rangeM E (M db))"
    and "set (rangeM E (M db)) = dom (M db)"
  shows "Type (handleKeysCommand E c db) = Array \<and>
         list_all (\<lambda>x. Type x = BulkString \<and> \<not> IsNull x) (Arr (handleKeysCommand E c db)) \<and>
         set (map Str (Arr (handleKeysCommand E c db))) = dom (M db) \<and>
         distinct (map Str (Arr (handleKeysCommand E c db))) \<and>
         handleKeysCommand E \<lparr>cmd = n, args = [p]\<rparr> db = handleKeysCommand E c db \<and>
         (dom (M db) = {} \<longrightarrow> handleKeysCommand E c db = RespData Array [] True []) \<and>
         (dom (M db) \<noteq> {} \<longrightarrow> \<not> IsNull (handleKeysCommand E c db)) \<and>
         (ToLower E (cmd c) = ''keys'' \<longrightarrow>
            dispatchCommand E c db = Inr (handleKeysCommand E c db, db))"
proof -
  let ?ks = "rangeM E (M db)"
  have r: "handleKeysCommand E c db =
             (if ?ks = [] then RespData Array [] True []
              else RespData Array [] False (map (\<lambda>k. RespData BulkString k False []) ?ks))"
    using assms(1) by (simp add: handleKeysCommand_def Let_def)
  have strs: "map Str (Arr (handleKeysCommand E c db)) = ?ks"
    by (simp add: r comp_def)
  have empty: "(?ks = []) = (dom (M db) = {})"
    using assms(3) by (metis set_empty)
  have p: "handleKeysCommand E \<lparr>cmd = n, args = [p]\<rparr> db = handleKeysCommand E c db"
    by (simp add: r) (simp add: handleKeysCommand_def Let_def)
  have d: "ToLower E (cmd c) = ''keys'' \<longrightarrow>
             dispatchCommand E c db = Inr (handleKeysCommand E c db, db)"
    by (simp add: dispatchCommand_def Let_def)
  have t: "Type (handleKeysCommand E c db) = Array"
    by (simp add: r)
  have b: "list_all (\<lambda>x. Type x = BulkString \<and> \<not> IsNull x) (Arr (handleKeysCommand E c db))"
    by (simp add: r list_all_iff)
  have nn: "dom (M db) \<noteq> {} \<longrightarrow> \<not> IsNull (handleKeysCommand E c db)"
  proof
    assume "dom (M db) \<noteq> {}"
    with empty have "?ks \<noteq> []" by blast
    then show "\<not> IsNull (handleKeysCommand E c db)" by (simp add: r)
  qed
  have e: "dom (M db) = {} \<longrightarrow> handleKeysCommand E c db = RespData Array [] True []"
  proof
    assume "dom (M db) = {}"
    with empty have "?ks = []" by blast
    then show "handleKeysCommand E c db = RespData Array [] True []" by (simp add: r)
  qed
  from t b strs assms(2,3) p e nn d show ?thesis by simp
qed

theorem keys_reply_witness:
  "length (args \<lparr>cmd = ''KEYS'', args = [''*'']\<rparr>) = 1 \<and>
   distinct (rangeM exampleEnv
     (M (exampleDB\<lparr>M := [''k'' \<mapsto> \<lparr>val = StringValue ''v'', expireAt = None\<rparr>]\<rparr>))) \<and>
   set (rangeM exampleEnv
     (M (exampleDB\<lparr>M := [''k'' \<mapsto> \<lparr>val = StringValue ''v'', expireAt = None\<rparr>]\<rparr>))) =
     dom (M (exampleDB\<lparr>M := [''k'' \<mapsto> \<lparr>val = StringValue ''v'', expireAt = None\<rparr>]\<rparr>)) \<and>
   handleKeysCommand exampleEnv \<lparr>cmd = ''KEYS'', args = [''a*'']\<rparr>
       (exampleDB\<lparr>M := [''k'' \<mapsto> \<lparr>val = StringValue ''v'', expireAt = None\<rparr>]\<rparr>) =
     handleKeysCommand exampleEnv \<lparr>cmd = ''KEYS'', args = [''*'']\<rparr>
       (exampleDB\<lparr>M := [''k'' \<mapsto> \<lparr>val = StringValue ''v'', expireAt = None\<rparr>]\<rparr>) \<and>
   set (map Str (Arr (handleKeysCommand exampleEnv \<lparr>cmd = ''KEYS'', args = [''*'']\<rparr>
       (exampleDB\<lparr>M := [''k'' \<mapsto> \<lparr>val = StringValue ''v'', expireAt = None\<rparr>]\<rparr>)))) = {''k''}"
proof -
  let ?db = "exampleDB\<lparr>M := [''k'' \<mapsto> \<lparr>val = StringValue ''v'', expireAt = None\<rparr>]\<rparr>"
  let ?c = "\<lparr>cmd = ''KEYS'', args = [''*'']\<rparr>"
  have a: "length (args ?c) = 1" by simp
  have ks: "rangeM exampleEnv (M ?db) = [''k'']" by (simp add: exampleEnv_def)
  have d: "distinct (rangeM exampleEnv (M ?db))" unfolding ks by simp
  have s: "set (rangeM exampleEnv (M ?db)) = dom (M ?db)" unfolding ks by simp
  show ?thesis using a d s keys_reply [OF a d s, of "''KEYS''" "''a*''"] by simp
qed

section \<open>Case variants of the command name\<close>

text \<open>
  C9, as the claim states it, fails: \<open>FOO\<close> and its all-lowercase variant \<open>foo\<close> get
  different replies, each with the name as it was typed.
\<close>

theorem case_variant_counterexample:
  "ToLower exampleEnv ''FOO'' = ''foo'' \<and>
   executeCommand exampleEnv \<lparr>cmd = ''FOO'', args = []\<rparr> normalConn False exampleDB =
     Inr (RespData Error (''ERR unknown command 'FOO'' @ [CHR 0x27]) False [], normalConn,
          exampleDB) \<and>
   executeCommand exampleEnv \<lparr>cmd = ''foo'', args = []\<rparr> normalConn False exampleDB =
     Inr (RespData Error (''ERR unknown command 'foo'' @ [CHR 0x27]) False [], normalConn,
          exampleDB)"
  by (simp add: executeCommand_def dispatchCommand_def normalConn_def ToLower_examples Let_def)

text \<open>
  C9, amended: command-name dispatch is case-insensitive. Take a command and a case
  variant of it, the same arguments under a name with the same lower-case form; for a
  supported name the all-lowercase name is such a variant.
  \<^item> For \<open>exec\<close> and \<open>discard\<close>, in every session state, both yield the same reply and
    the same effect on the store and the session.
  \<^item> \<open>multi\<close> under every variant reaches \<open>handleMultiCommand\<close>, with the command as
    it was typed.
  \<^item> Outside the Queuing state (or with \<open>context\<close> true), for every command
    \<open>command.go\<close> handles itself (\<open>ping\<close>, \<open>echo\<close>, \<open>set\<close>, \<open>delete\<close>, \<open>get\<close>, \<open>save\<close>,
    \<open>config\<close>, \<open>keys\<close>, \<open>info\<close>, \<open>incr\<close>, \<open>type\<close>) and for every list or stream command
    whose own handler does not read the name, both yield the same reply and the same
    effect on the store and the session.
  \<^item> In the Queuing state, for every command other than \<open>multi\<close>, \<open>exec\<close> and
    \<open>discard\<close>, both have the same reply written (or the same panic) and leave the
    store as it is, and the queue records the name as it was typed.
  \<^item> For a name that is not supported, outside the Queuing state, the error reply
    quotes the name as it was typed.
\<close>

theorem dispatch_case_insensitive:
  assumes "ToLower E n = ToLower E (cmd c)"
  shows
  "(ToLower E (cmd c) = ''exec'' \<or> ToLower E (cmd c) = ''discard'' \<longrightarrow>
      executeCommand E (c\<lparr>cmd := n\<rparr>) cc context db = executeCommand E c cc context db \<and>
      handleCommand E (c\<lparr>cmd := n\<rparr>) cc db = handleCommand E c cc db) \<and>
   (ToLower E (cmd c) = ''multi'' \<longrightarrow>
      executeCommand E (c\<lparr>cmd := n\<rparr>) cc context db =
        (case handleMultiCommand (c\<lparr>cmd := n\<rparr>) cc of (r, cc') \<Rightarrow> Inr (r, cc', db))) \<and>
   (ToLower E (cmd c) \<in> set ownNames \<or>
    (\<exists>h. outsideHandler E (ToLower E (cmd c)) = Some h \<and> ignoresName h) \<longrightarrow>
      (\<not> isTransaction cc \<or> context \<longrightarrow>
         executeCommand E (c\<lparr>cmd := n\<rparr>) cc context db = executeCommand E c cc context db) \<and>
      (\<not> isTransaction cc \<longrightarrow>
         handleCommand E (c\<lparr>cmd := n\<rparr>) cc db = handleCommand E c cc db)) \<and>
   (\<not> isControl E c \<and> isTransaction cc \<longrightarrow>
      handleCommand E (c\<lparr>cmd := n\<rparr>) cc db =
        (case handleCommand E c cc db of
           Inl p \<Rightarrow> Inl p
         | Inr (w, cc', db') \<Rightarrow>
             Inr (w, cc\<lparr>transactionQueue := transactionQueue cc @ [c\<lparr>cmd := n\<rparr>]\<rparr>, db')) \<and>
      (\<forall>w cc' db'. handleCommand E c cc db = Inr (w, cc', db') \<longrightarrow>
         cc' = cc\<lparr>transactionQueue := transactionQueue cc @ [c]\<rparr> \<and> db' = db)) \<and>
   (ToLower E (cmd c) \<in> set ownNames \<or> ToLower E (cmd c) \<in> set outsideNames \<or>
    isControl E c \<longrightarrow>
      ToLower E (ToLower E (cmd c)) = ToLower E (cmd c)) \<and>
   (\<not> isControl E c \<and> ToLower E (cmd c) \<notin> set ownNames \<and>
    ToLower E (cmd c) \<notin> set outsideNames \<longrightarrow>
      (\<not> isTransaction cc \<or> context \<longrightarrow>
         executeCommand E c cc context db =
           Inr (RespData Error (''ERR unknown command '' @ [CHR 0x27] @ cmd c @ [CHR 0x27])
                  False [], cc, db)) \<and>
      (\<not> isTransaction cc \<longrightarrow>
         handleCommand E c cc db =
           Inr (Write (RespData Error
                  (''ERR unknown command '' @ [CHR 0x27] @ cmd c @ [CHR 0x27]) False []),
                cc, db)))"
proof -
  let ?c = "c\<lparr>cmd := n\<rparr>"
  note v = assms
  have ctl: "isControl E ?c = isControl E c" using v by (rule isControl_name)
  have ed: "executeCommand E ?c cc ctx db = executeCommand E c cc ctx db"
    if "ToLower E (cmd c) = ''exec'' \<or> ToLower E (cmd c) = ''discard''" for ctx
    using that v by (rule execute_exec_discard_name)
  have a: "executeCommand E ?c cc context db = executeCommand E c cc context db \<and>
           handleCommand E ?c cc db = handleCommand E c cc db"
    if x: "ToLower E (cmd c) = ''exec'' \<or> ToLower E (cmd c) = ''discard''"
    using ed [OF x] handleCommand_name [OF v ed [OF x]] by simp
  have b: "executeCommand E ?c cc context db =
             (case handleMultiCommand ?c cc of (r, cc') \<Rightarrow> Inr (r, cc', db))"
    if "ToLower E (cmd c) = ''multi''"
    using that v by (simp add: execute_multi)
  have own: "\<not> isControl E c" if "ToLower E (cmd c) \<in> set ownNames"
    using that by (auto simp add: isControl_def ownNames_def)
  have out: "\<not> isControl E c" if "outsideHandler E (ToLower E (cmd c)) = Some h" for h
    using that by (auto simp add: isControl_def outsideHandler_def)
  have disp: "dispatchCommand E ?c db = dispatchCommand E c db"
    if "ToLower E (cmd c) \<in> set ownNames \<or>
        (\<exists>h. outsideHandler E (ToLower E (cmd c)) = Some h \<and> ignoresName h)"
    using that v dispatch_own_name dispatch_outside_name by blast
  have ex: "executeCommand E ?c cc ctx db = executeCommand E c cc ctx db"
    if s: "ToLower E (cmd c) \<in> set ownNames \<or>
           (\<exists>h. outsideHandler E (ToLower E (cmd c)) = Some h \<and> ignoresName h)"
      and q: "\<not> isTransaction cc \<or> ctx" for ctx
  proof -
    from s own out have nc: "\<not> isControl E c" by blast
    with q ctl disp [OF s] show ?thesis by (simp add: execute_not_queued)
  qed
  have cpart: "(\<not> isTransaction cc \<or> context \<longrightarrow>
                  executeCommand E ?c cc context db = executeCommand E c cc context db) \<and>
               (\<not> isTransaction cc \<longrightarrow> handleCommand E ?c cc db = handleCommand E c cc db)"
    if s: "ToLower E (cmd c) \<in> set ownNames \<or>
           (\<exists>h. outsideHandler E (ToLower E (cmd c)) = Some h \<and> ignoresName h)"
  proof (intro conjI impI)
    assume "\<not> isTransaction cc \<or> context"
    with s show "executeCommand E ?c cc context db = executeCommand E c cc context db"
      by (rule ex)
  next
    assume "\<not> isTransaction cc"
    then have "executeCommand E ?c cc False db = executeCommand E c cc False db"
      using s ex by blast
    with v show "handleCommand E ?c cc db = handleCommand E c cc db"
      by (rule handleCommand_name)
  qed
  have d: "handleCommand E ?c cc db =
             (case handleCommand E c cc db of
                Inl p \<Rightarrow> Inl p
              | Inr (w, cc', db') \<Rightarrow>
                  Inr (w, cc\<lparr>transactionQueue := transactionQueue cc @ [?c]\<rparr>, db')) \<and>
           (\<forall>w cc' db'. handleCommand E c cc db = Inr (w, cc', db') \<longrightarrow>
              cc' = cc\<lparr>transactionQueue := transactionQueue cc @ [c]\<rparr> \<and> db' = db)"
    if nc: "\<not> isControl E c" and t: "isTransaction cc"
  proof -
    from nc ctl have nc': "\<not> isControl E ?c" by simp
    show ?thesis
      using v
      by (auto simp add: handleCommand_queued [OF nc t] handleCommand_queued [OF nc' t]
          handleConfigGetResponse_def split: sum.splits if_splits)
  qed
  have e: "ToLower E (ToLower E (cmd c)) = ToLower E (cmd c)"
    if "ToLower E (cmd c) \<in> set ownNames \<or> ToLower E (cmd c) \<in> set outsideNames \<or>
        isControl E c"
    using that by (intro ToLower_supported_name) (auto simp add: isControl_def)
  have u: "(\<not> isTransaction cc \<or> context \<longrightarrow>
         executeCommand E c cc context db =
           Inr (RespData Error (''ERR unknown command '' @ [CHR 0x27] @ cmd c @ [CHR 0x27])
                  False [], cc, db)) \<and>
      (\<not> isTransaction cc \<longrightarrow>
         handleCommand E c cc db =
           Inr (Write (RespData Error
                  (''ERR unknown command '' @ [CHR 0x27] @ cmd c @ [CHR 0x27]) False []),
                cc, db))"
    if nc: "\<not> isControl E c" and o: "ToLower E (cmd c) \<notin> set ownNames"
      and x: "ToLower E (cmd c) \<notin> set outsideNames"
  proof -
    have exu: "executeCommand E c cc ctx db =
           Inr (RespData Error (''ERR unknown command '' @ [CHR 0x27] @ cmd c @ [CHR 0x27])
                  False [], cc, db)" if "\<not> isTransaction cc \<or> ctx" for ctx
      using that nc o x by (simp add: execute_not_queued dispatch_unknown_name)
    from o have nconf: "ToLower E (cmd c) \<noteq> ''config''" by (auto simp add: ownNames_def)
    have "handleCommand E c cc db =
           Inr (Write (RespData Error
                  (''ERR unknown command '' @ [CHR 0x27] @ cmd c @ [CHR 0x27]) False []),
                cc, db)" if "\<not> isTransaction cc"
      using that nconf exu [of False] by (simp add: handleCommand_def)
    with exu show ?thesis by blast
  qed
  from a b cpart d e u show ?thesis by blast
qed

theorem dispatch_case_insensitive_witness:
  "ToLower exampleEnv ''get'' = ToLower exampleEnv (cmd \<lparr>cmd = ''GET'', args = [''k'']\<rparr>) \<and>
   executeCommand exampleEnv \<lparr>cmd = ''get'', args = [''k'']\<rparr> normalConn False exampleDB =
     executeCommand exampleEnv \<lparr>cmd = ''GET'', args = [''k'']\<rparr> normalConn False exampleDB \<and>
   handleCommand exampleEnv \<lparr>cmd = ''get'', args = [''k'']\<rparr> normalConn exampleDB =
     handleCommand exampleEnv \<lparr>cmd = ''GET'', args = [''k'']\<rparr> normalConn exampleDB \<and>
   handleCommand exampleEnv \<lparr>cmd = ''GET'', args = [''k'']\<rparr> normalConn exampleDB =
     Inr (Write (RespData BulkString [] True []), normalConn, exampleDB) \<and>
   handleCommand exampleEnv \<lparr>cmd = ''get'', args = [''k'']\<rparr>
       \<lparr>transactionQueue = [], isTransaction = True\<rparr> exampleDB =
     Inr (Write (RespData SimpleString ''QUEUED'' False []),
          \<lparr>transactionQueue = [\<lparr>cmd = ''get'', args = [''k'']\<rparr>], isTransaction = True\<rparr>,
          exampleDB) \<and>
   executeCommand exampleEnv \<lparr>cmd = ''lpush'', args = [''l'', ''x'']\<rparr> normalConn False exampleDB =
     executeCommand exampleEnv \<lparr>cmd = ''LPUSH'', args = [''l'', ''x'']\<rparr> normalConn False
       exampleDB"
proof -
  have v: "ToLower exampleEnv ''get'' =
             ToLower exampleEnv (cmd \<lparr>cmd = ''GET'', args = [''k'']\<rparr>)"
    by (simp add: ToLower_examples)
  have w: "ToLower exampleEnv ''lpush'' =
             ToLower exampleEnv (cmd \<lparr>cmd = ''LPUSH'', args = [''l'', ''x'']\<rparr>)"
    by (simp add: ToLower_examples)
  have g: "handleCommand exampleEnv \<lparr>cmd = ''GET'', args = [''k'']\<rparr> normalConn exampleDB =
     Inr (Write (RespData BulkString [] True []), normalConn, exampleDB)"
    by (simp add: handleCommand_def executeCommand_def dispatchCommand_def
        handleGetCommand_def Get_def resolve_def exampleDB_def normalConn_def ToLower_examples
        Let_def)
  have q: "handleCommand exampleEnv \<lparr>cmd = ''GET'', args = [''k'']\<rparr>
       \<lparr>transactionQueue = [], isTransaction = True\<rparr> exampleDB =
     Inr (Write (RespData SimpleString ''QUEUED'' False []),
          \<lparr>transactionQueue = [\<lparr>cmd = ''GET'', args = [''k'']\<rparr>], isTransaction = True\<rparr>,
          exampleDB)"
    by (simp add: handleCommand_def executeCommand_def ToLower_examples Let_def)
  have h: "ignoresName exampleHandler"
    by (simp add: ignoresName_def exampleHandler_def)
  show ?thesis
    using v g q h
      dispatch_case_insensitive [OF v, of normalConn False exampleDB]
      dispatch_case_insensitive [OF v, of "\<lparr>transactionQueue = [], isTransaction = True\<rparr>"
        False exampleDB]
      dispatch_case_insensitive [OF w, of normalConn False exampleDB]
    by (simp add: isControl_def ownNames_def outsideHandler_def exampleEnv_def
        ToLower_examples normalConn_def)
qed

end
